theory Spec2Isabelle
  imports Complex_Main "HOL-Library.Sublist"
begin

section \<open>Data model of \<^verbatim>\<open>pages_index.tsx\<close>\<close>

text \<open>
  The ledger lives in the React component \<^verbatim>\<open>BusinessApp\<close>. Its \<^verbatim>\<open>useState\<close> cells are
  the fields of one state record, and every event handler is a function from the state
  before the event to the alert it raises (if any) and the state after it.

  JavaScript numbers are a type parameter \<open>'n\<close> with an addition, a zero and a comparison
  (the classes \<open>plus\<close>, \<open>zero\<close> and \<open>ord\<close>), of which no law is assumed: the program adds
  and compares IEEE doubles, whose addition rounds and is not associative, so what is
  proved for every such \<open>'n\<close> is proved for them. The examples instantiate \<open>'n\<close> with
  \<^typ>\<open>real\<close>, on prices that doubles hold exactly.

  JavaScript strings are modelled as \<^typ>\<open>string\<close>, a \<^typ>\<open>char\<close> standing for the code
  unit of its number, U+0000 to U+00FF; strings with other code units are outside the
  model. A falsy string is the empty one. \<^verbatim>\<open>Date.now()\<close>, today's ISO date and the
  answer to a \<^verbatim>\<open>confirm\<close> dialog come from outside the program and are parameters of the
  handlers. Expenses and the active tab take no part in the properties below and are left
  out.
\<close>

datatype PaymentMethod = Cash | Postpaid

text \<open>
  \<^verbatim>\<open>Omit<Order, 'id' | 'paid'>\<close>, the type of the order form's draft, is the base
  record; \<^verbatim>\<open>Order\<close> extends it with the two omitted fields.
\<close>

record 'n order_draft =
  date :: string
  vehicle :: string
  clientName :: string
  orderType :: string
  location :: string
  cost :: 'n
  price :: 'n
  paymentMethod :: PaymentMethod

record 'n order = "'n order_draft" +
  id_order :: string
  paid :: bool

record client =
  id_client :: string
  name :: string

record 'n app_state =
  orders :: "'n order list"
  clients :: "client list"
  newOrder :: "'n order_draft"
  orderPaid :: bool
  editingOrderId :: "string option"
  newClientName :: string
  showAddClientInput :: bool
  selectedClientForInvoice :: string
  selectedMonthForInvoice :: string

definition predefinedClients :: "client list" where
  "predefinedClients =
     [\<lparr>id_client = ''1'', name = ''Hassan Bobo''\<rparr>,
      \<lparr>id_client = ''2'', name = ''Omar Shareif''\<rparr>,
      \<lparr>id_client = ''3'', name = ''Muhi Aldein''\<rparr>,
      \<lparr>id_client = ''4'', name = ''Khalifa Shareif''\<rparr>,
      \<lparr>id_client = ''5'', name = ''Mutwali''\<rparr>]"

section \<open>Built-ins of the language\<close>

text \<open>\<^verbatim>\<open>String.prototype.startsWith\<close> with one argument: a match at position 0.\<close>

fun startsWith :: "string \<Rightarrow> string \<Rightarrow> bool" where
  "startsWith s [] = True"
| "startsWith [] (c # cs) = False"
| "startsWith (x # xs) (c # cs) = (x = c \<and> startsWith xs cs)"

text \<open>
  \<^verbatim>\<open>String.prototype.trim\<close> strips white space and line terminators from both ends.
  Among the code units up to U+00FF these are TAB, LF, VT, FF, CR, SPACE and the
  no-break space U+00A0 (not U+0085, and not U+001C to U+001F).
\<close>

definition isWhiteSpace :: "char \<Rightarrow> bool" where
  "isWhiteSpace c \<longleftrightarrow> (of_char c :: nat) \<in> {9, 10, 11, 12, 13, 32, 160}"

definition trim :: "string \<Rightarrow> string" where
  "trim s = rev (dropWhile isWhiteSpace (rev (dropWhile isWhiteSpace s)))"

text \<open>
  \<^verbatim>\<open>String.prototype.toLowerCase\<close>. Among the code units up to U+00FF the ones with a
  lower-case partner are A to Z and U+00C0 to U+00DE without the multiplication sign
  U+00D7; the partner is 32 further on.
\<close>

definition toLowerChar :: "char \<Rightarrow> char" where
  "toLowerChar c =
     (if (65 \<le> (of_char c :: nat) \<and> (of_char c :: nat) \<le> 90) \<or>
         (192 \<le> (of_char c :: nat) \<and> (of_char c :: nat) \<le> 222 \<and>
          (of_char c :: nat) \<noteq> 215)
      then char_of (of_char c + 32 :: nat) else c)"

definition toLowerCase :: "string \<Rightarrow> string" where
  "toLowerCase s = map toLowerChar s"

text \<open>\<^verbatim>\<open>Date.now().toString()\<close>: the decimal digits of a millisecond count.\<close>

fun toString :: "nat \<Rightarrow> string" where
  "toString n =
     (if n < 10 then [char_of (48 + n)]
      else toString (n div 10) @ [char_of (48 + n mod 10)])"

declare toString.simps [simp del]

text \<open>
  The truthiness test \<^verbatim>\<open>if (editingOrderId)\<close> on a \<^verbatim>\<open>string | null\<close>: both
  \<^verbatim>\<open>null\<close> and the empty string are falsy.
\<close>

fun truthy :: "string option \<Rightarrow> string option" where
  "truthy None = None"
| "truthy (Some []) = None"
| "truthy (Some (c # cs)) = Some (c # cs)"

section \<open>Financial calculator\<close>

text \<open>
  \<^verbatim>\<open>order.paymentMethod === 'Postpaid' && !order.paid ? order.price : 0\<close>
\<close>

definition calculateBalance :: "('n::zero) order \<Rightarrow> 'n" where
  "calculateBalance order =
     (if paymentMethod order = Postpaid \<and> \<not> paid order then price order else 0)"

text \<open>
  \<^verbatim>\<open>totalUnpaidAmount\<close> is recomputed at every render from the orders and the two
  invoice selections: a \<^verbatim>\<open>filter\<close> followed by a \<^verbatim>\<open>reduce\<close> from 0, which is a
  left fold: the prices are added one by one, left to right, in the order of the
  collection.
\<close>

definition totalUnpaidAmount :: "('n::{plus,zero}) order list \<Rightarrow> string \<Rightarrow> string \<Rightarrow> 'n" where
  "totalUnpaidAmount os selectedClient selectedMonth =
     foldl (\<lambda>sum order. sum + price order) 0
       (filter (\<lambda>order. clientName order = selectedClient \<and>
                         startsWith (date order) selectedMonth \<and>
                         paymentMethod order = Postpaid \<and>
                         \<not> paid order) os)"

section \<open>Entity store: the event handlers\<close>

definition alertOrderFields :: string where
  "alertOrderFields = ''Please fill in all required order fields (Date, Client, Vehicle, Price).''"

definition alertClientEmpty :: string where
  "alertClientEmpty = ''Client name cannot be empty.''"

definition alertClientExists :: string where
  "alertClientExists = ''Client with this name already exists.''"

definition alertSelectClientMonth :: string where
  "alertSelectClientMonth = ''Please select a client and a month to generate the invoice.''"

definition alertNoOrders :: string where
  "alertNoOrders = ''No orders found for the selected client and month.''"

text \<open>
  \<^verbatim>\<open>defaultNewOrderState\<close>; its date is today's and its client is
  \<^verbatim>\<open>predefinedClients[0]?.name || ''\<close>.
\<close>

definition defaultNewOrderState :: "string \<Rightarrow> ('n::zero) order_draft" where
  "defaultNewOrderState today =
     \<lparr>date = today, vehicle = [],
      clientName = (case predefinedClients of [] \<Rightarrow> [] | c # _ \<Rightarrow> name c),
      orderType = [], location = [], cost = 0, price = 0, paymentMethod = Cash\<rparr>"

text \<open>The object spread \<^verbatim>\<open>{ ...newOrder, id: i, paid: p }\<close>.\<close>

definition spreadOrder :: "'n order_draft \<Rightarrow> string \<Rightarrow> bool \<Rightarrow> 'n order" where
  "spreadOrder d i p =
     \<lparr>date = date d, vehicle = vehicle d, clientName = clientName d,
      orderType = orderType d, location = location d, cost = cost d, price = price d,
      paymentMethod = paymentMethod d, id_order = i, paid = p\<rparr>"

text \<open>
  \<^verbatim>\<open>handleSaveOrder\<close>. The guard returns after the alert, before any setter runs. After it,
  a truthy \<^verbatim>\<open>editingOrderId\<close> maps over the orders, and anything else appends an order
  whose id is the clock's reading.
\<close>

definition handleSaveOrder ::
  "nat \<Rightarrow> string \<Rightarrow> ('n::{zero,ord}) app_state \<Rightarrow> string option \<times> 'n app_state" where
  "handleSaveOrder now today s =
     (if date (newOrder s) = [] \<or> clientName (newOrder s) = [] \<or>
         vehicle (newOrder s) = [] \<or> price (newOrder s) \<le> 0
      then (Some alertOrderFields, s)
      else (None,
        (case truthy (editingOrderId s) of
           Some eid \<Rightarrow>
             s\<lparr>orders := map (\<lambda>order. if id_order order = eid
                                        then spreadOrder (newOrder s) eid (orderPaid s)
                                        else order) (orders s),
               editingOrderId := None\<rparr>
         | None \<Rightarrow>
             s\<lparr>orders := orders s @ [spreadOrder (newOrder s) (toString now) (orderPaid s)]\<rparr>)
        \<lparr>newOrder := defaultNewOrderState today, orderPaid := True\<rparr>))"

text \<open>\<^verbatim>\<open>handleEditOrder\<close> (the scrolling is not modelled).\<close>

definition handleEditOrder :: "string \<Rightarrow> 'n app_state \<Rightarrow> 'n app_state" where
  "handleEditOrder i s =
     (case find (\<lambda>order. id_order order = i) (orders s) of
        None \<Rightarrow> s
      | Some orderToEdit \<Rightarrow>
          s\<lparr>newOrder := \<lparr>date = date orderToEdit, vehicle = vehicle orderToEdit,
                          clientName = clientName orderToEdit,
                          orderType = orderType orderToEdit,
                          location = location orderToEdit, cost = cost orderToEdit,
                          price = price orderToEdit,
                          paymentMethod = paymentMethod orderToEdit\<rparr>,
            orderPaid := paid orderToEdit,
            editingOrderId := Some i\<rparr>)"

definition handleDeleteOrder ::
  "bool \<Rightarrow> string \<Rightarrow> string \<Rightarrow> ('n::zero) app_state \<Rightarrow> 'n app_state" where
  "handleDeleteOrder confirmed today i s =
     (if confirmed
      then (if editingOrderId s = Some i
            then s\<lparr>orders := filter (\<lambda>order. id_order order \<noteq> i) (orders s),
                   editingOrderId := None,
                   newOrder := defaultNewOrderState today, orderPaid := True\<rparr>
            else s\<lparr>orders := filter (\<lambda>order. id_order order \<noteq> i) (orders s)\<rparr>)
      else s)"

definition handleCancelEditOrder :: "string \<Rightarrow> ('n::zero) app_state \<Rightarrow> 'n app_state" where
  "handleCancelEditOrder today s =
     s\<lparr>editingOrderId := None, newOrder := defaultNewOrderState today, orderPaid := True\<rparr>"

text \<open>
  The \<^verbatim>\<open>onChange\<close> handlers of the order form's vehicle, price and client inputs. The
  price handler is given the number that \<^verbatim>\<open>parseFloat(e.target.value) || 0\<close> yields.
\<close>

definition onChange_orderVehicle :: "string \<Rightarrow> 'n app_state \<Rightarrow> 'n app_state" where
  "onChange_orderVehicle v s = s\<lparr>newOrder := (newOrder s)\<lparr>vehicle := v\<rparr>\<rparr>"

definition onChange_orderPrice :: "'n \<Rightarrow> 'n app_state \<Rightarrow> 'n app_state" where
  "onChange_orderPrice p s = s\<lparr>newOrder := (newOrder s)\<lparr>price := p\<rparr>\<rparr>"

definition onChange_orderClient :: "string \<Rightarrow> 'n app_state \<Rightarrow> 'n app_state" where
  "onChange_orderClient v s =
     (if v = ''add_new''
      then s\<lparr>showAddClientInput := True, newOrder := (newOrder s)\<lparr>clientName := []\<rparr>\<rparr>
      else s\<lparr>showAddClientInput := False, newOrder := (newOrder s)\<lparr>clientName := v\<rparr>\<rparr>)"

text \<open>The \<^verbatim>\<open>onChange\<close> handler of the two new-client inputs.\<close>

definition onChange_newClientName :: "string \<Rightarrow> 'n app_state \<Rightarrow> 'n app_state" where
  "onChange_newClientName v s = s\<lparr>newClientName := v\<rparr>"

text \<open>
  \<^verbatim>\<open>handleAddClient\<close>. Both guards return after their alert. The updater passed to
  \<^verbatim>\<open>setClients\<close> also moves the invoice selection and the draft's client.
\<close>

definition handleAddClient :: "nat \<Rightarrow> 'n app_state \<Rightarrow> string option \<times> 'n app_state" where
  "handleAddClient now s =
     (if trim (newClientName s) = [] then (Some alertClientEmpty, s)
      else if list_ex (\<lambda>c. toLowerCase (name c) = toLowerCase (trim (newClientName s)))
                (clients s)
      then (Some alertClientExists, s)
      else
        (let clientToAdd = \<lparr>id_client = toString now, name = trim (newClientName s)\<rparr>
         in (None,
             s\<lparr>clients := clients s @ [clientToAdd],
               selectedClientForInvoice :=
                 (if clients s = [] \<or> selectedClientForInvoice s = []
                  then name clientToAdd else selectedClientForInvoice s),
               newOrder := (newOrder s)\<lparr>clientName := name clientToAdd\<rparr>,
               newClientName := [],
               showAddClientInput := False\<rparr>)))"

text \<open>
  \<^verbatim>\<open>handleRemoveClient\<close>. \<^verbatim>\<open>prev.find(c => c.id === id)?.name\<close> is an optional name, and
  \<^verbatim>\<open>updatedClients[0]?.name || ''\<close> is the first remaining name or the empty string.
\<close>

definition handleRemoveClient :: "bool \<Rightarrow> string \<Rightarrow> 'n app_state \<Rightarrow> 'n app_state" where
  "handleRemoveClient confirmed i s =
     (if confirmed
      then
        (let updatedClients = filter (\<lambda>c. id_client c \<noteq> i) (clients s);
             removedName = map_option name (find (\<lambda>c. id_client c = i) (clients s));
             firstName = (case updatedClients of [] \<Rightarrow> [] | c # _ \<Rightarrow> name c)
         in s\<lparr>clients := updatedClients,
              selectedClientForInvoice :=
                (if Some (selectedClientForInvoice s) = removedName
                 then firstName else selectedClientForInvoice s),
              newOrder :=
                (if Some (clientName (newOrder s)) = removedName
                 then (newOrder s)\<lparr>clientName := firstName\<rparr> else newOrder s)\<rparr>)
      else s)"

text \<open>
  The state after the first render and the mount effect when nothing is stored yet:
  the seed clients, no orders, and the first seed client selected in both forms.
\<close>

definition initialState :: "string \<Rightarrow> ('n::zero) app_state" where
  "initialState today =
     \<lparr>orders = [], clients = predefinedClients,
      newOrder = (defaultNewOrderState today)
                   \<lparr>clientName := (case predefinedClients of [] \<Rightarrow> [] | c # _ \<Rightarrow> name c)\<rparr>,
      orderPaid = True, editingOrderId = None, newClientName = [],
      showAddClientInput = False,
      selectedClientForInvoice = (case predefinedClients of [] \<Rightarrow> [] | c # _ \<Rightarrow> name c),
      selectedMonthForInvoice = take 7 today\<rparr>"

section \<open>Invoice assembler\<close>

text \<open>
  The filter of \<^verbatim>\<open>generateInvoicePdf\<close>, which the table body of the invoice repeats.
\<close>

definition filteredOrders :: "'n order list \<Rightarrow> string \<Rightarrow> string \<Rightarrow> 'n order list" where
  "filteredOrders os selectedClient selectedMonth =
     filter (\<lambda>order. clientName order = selectedClient \<and>
                       startsWith (date order) selectedMonth) os"

text \<open>
  What the hidden invoice element shows and the PDF captures: one line per filtered order
  with its balance, the total, and the name of the saved file. Rasterising and paginating
  the element is the work of the rendering libraries and is not modelled.
\<close>

record 'n invoice_pdf =
  fileName :: string
  lineItems :: "('n order \<times> 'n) list"
  totalUnpaid :: 'n

definition invoiceDocument :: "('n::{plus,zero}) app_state \<Rightarrow> 'n invoice_pdf" where
  "invoiceDocument s =
     \<lparr>fileName = selectedClientForInvoice s @ ''_Invoice_'' @ selectedMonthForInvoice s @ ''.pdf'',
      lineItems = map (\<lambda>order. (order, calculateBalance order))
                    (filteredOrders (orders s) (selectedClientForInvoice s)
                       (selectedMonthForInvoice s)),
      totalUnpaid = totalUnpaidAmount (orders s) (selectedClientForInvoice s)
                      (selectedMonthForInvoice s)\<rparr>"

text \<open>
  \<^verbatim>\<open>generateInvoicePdf\<close> returns the alert, the saved document and the state. It calls no
  setter. The document is saved only under \<^verbatim>\<open>if (invoiceRef.current)\<close>, so whether the
  invoice element is mounted is a parameter.
\<close>

definition generateInvoicePdf ::
  "bool \<Rightarrow> ('n::{plus,zero}) app_state
     \<Rightarrow> (string option \<times> 'n invoice_pdf option) \<times> 'n app_state" where
  "generateInvoicePdf invoiceRefMounted s =
     (if selectedClientForInvoice s = [] \<or> selectedMonthForInvoice s = []
      then ((Some alertSelectClientMonth, None), s)
      else if filteredOrders (orders s) (selectedClientForInvoice s)
                (selectedMonthForInvoice s) = []
      then ((Some alertNoOrders, None), s)
      else if invoiceRefMounted then ((None, Some (invoiceDocument s)), s)
      else ((None, None), s))"

section \<open>Auxiliary notions\<close>

text \<open>
  The number a string of decimal digits denotes. It reads back what \<^verbatim>\<open>toString\<close> writes,
  which makes \<^verbatim>\<open>toString\<close> injective.
\<close>

definition digitsValue :: "string \<Rightarrow> nat" where
  "digitsValue cs = foldl (\<lambda>a c. 10 * a + (of_char c - 48)) 0 cs"

text \<open>
  The id under edit, when there is one, is the id of an order of the collection. Only
  \<^verbatim>\<open>handleSaveOrder\<close>, \<^verbatim>\<open>handleEditOrder\<close>, \<^verbatim>\<open>handleDeleteOrder\<close> and
  \<^verbatim>\<open>handleCancelEditOrder\<close> write \<^verbatim>\<open>orders\<close> or \<^verbatim>\<open>editingOrderId\<close>, apart from the
  mount effect, which loads the stored orders while no id is under edit.
\<close>

definition editingIdMatches :: "'n app_state \<Rightarrow> bool" where
  "editingIdMatches s =
     (case truthy (editingOrderId s) of
        None \<Rightarrow> True
      | Some eid \<Rightarrow> eid \<in> set (map id_order (orders s)))"

section \<open>Example data\<close>

text \<open>
  The two orders of the specification's scenario, and states reached from the initial one
  through the handlers, on 10 May 2024. The numbers are reals that doubles hold exactly.
\<close>

definition postpaidUnpaidOrder :: "real order" where
  "postpaidUnpaidOrder =
     \<lparr>date = ''2024-05-10'', vehicle = ''Truck A'', clientName = ''Acme'',
      orderType = ''Delivery'', location = ''City Center'', cost = 40, price = 100,
      paymentMethod = Postpaid, id_order = ''1715299200000'', paid = False\<rparr>"

definition cashPaidOrder :: "real order" where
  "cashPaidOrder =
     \<lparr>date = ''2024-05-20'', vehicle = ''Truck B'', clientName = ''Acme'',
      orderType = ''Pickup'', location = ''Harbour'', cost = 20, price = 50,
      paymentMethod = Cash, id_order = ''1716163200000'', paid = True\<rparr>"

text \<open>The form filled in with a vehicle and a price, and the state after saving it.\<close>

definition filledDraftState :: "real app_state" where
  "filledDraftState =
     onChange_orderPrice 100 (onChange_orderVehicle ''Truck A'' (initialState ''2024-05-10''))"

definition oneOrderState :: "real app_state" where
  "oneOrderState = snd (handleSaveOrder 1715299200000 ''2024-05-10'' filledDraftState)"

text \<open>A second draft typed into the form after the first save, and the state after saving it.\<close>

definition secondDraftState :: "real app_state" where
  "secondDraftState =
     onChange_orderPrice 50 (onChange_orderVehicle ''Truck B'' oneOrderState)"

definition twoOrderState :: "real app_state" where
  "twoOrderState = snd (handleSaveOrder 1716163200000 ''2024-05-20'' secondDraftState)"

text \<open>The first order opened for editing, with its price changed in the form.\<close>

definition editFirstState :: "real app_state" where
  "editFirstState = onChange_orderPrice 120 (handleEditOrder ''1715299200000'' twoOrderState)"

text \<open>The client \<^verbatim>\<open>omar\<close> added to the seed clients.\<close>

definition omarAddedState :: "real app_state" where
  "omarAddedState =
     snd (handleAddClient 1715299200000
            (onChange_newClientName ''omar'' (initialState ''2024-05-10'')))"

text \<open>
  A client whose name ends in U+00E9, the small e with acute accent, added after that.
\<close>

definition cafeAddedState :: "real app_state" where
  "cafeAddedState =
     snd (handleAddClient 1715299260000
            (onChange_newClientName [CHR ''c'', CHR ''a'', CHR ''f'', CHR 0xE9]
               omarAddedState))"

text \<open>
  The first seed client removed, one order saved for the client the form then shows, and
  the next draft typed in.
\<close>

definition staleClientState :: "real app_state" where
  "staleClientState =
     onChange_orderPrice 50 (onChange_orderVehicle ''Truck B''
       (snd (handleSaveOrder 1715299200000 ''2024-05-10''
          (onChange_orderPrice 100 (onChange_orderVehicle ''Truck A''
             (handleRemoveClient True ''1'' (initialState ''2024-05-10'')))))))"

section \<open>Helper lemmas\<close>

subsection \<open>The built-ins\<close>

lemma startsWith_prefix: "startsWith s p = prefix p s"
  by (induction s p rule: startsWith.induct) auto

lemmas toString_unfold =
  toString.simps [of "numeral k" for k] toString.simps [of "Suc 0"] toString.simps [of 0]
  toString.simps [of 1]

lemma toString_1715299200000: "toString 1715299200000 = ''1715299200000''"
  by (simp add: toString_unfold char_of_def bit_0)

lemma toString_1716163200000: "toString 1716163200000 = ''1716163200000''"
  by (simp add: toString_unfold char_of_def bit_0)

lemma toString_1715299260000: "toString 1715299260000 = ''1715299260000''"
  by (simp add: toString_unfold char_of_def bit_0)

lemma toString_seeds:
  "toString 1 = ''1''" "toString (Suc 0) = ''1''" "toString 2 = ''2''" "toString 3 = ''3''" "toString 4 = ''4''"
  "toString 5 = ''5''"
  by (simp_all add: toString_unfold char_of_def bit_0)

lemma digit_of_char: "d < 10 \<Longrightarrow> (of_char (char_of (48 + d :: nat)) :: nat) = 48 + d"
  by simp

lemma digitsValue_toString: "digitsValue (toString n) = n"
proof (induction n rule: toString.induct)
  case (1 n)
  show ?case
  proof (cases "n < 10")
    case True
    then show ?thesis
      by (subst toString.simps) (simp add: digitsValue_def digit_of_char)
  next
    case False
    have "digitsValue (toString n)
          = 10 * digitsValue (toString (n div 10)) + (of_char (char_of (48 + n mod 10)) - 48)"
      using False by (subst toString.simps) (simp add: digitsValue_def)
    also have "\<dots> = 10 * (n div 10) + n mod 10"
      using False 1 by (simp add: digit_of_char)
    finally show ?thesis by simp
  qed
qed

lemma toString_inj: "toString a = toString b \<Longrightarrow> a = b"
  by (metis digitsValue_toString)

lemma toString_fresh:
  "(\<forall>x \<in> set xs. \<exists>t. f x = toString t \<and> t \<noteq> now) \<longrightarrow> toString now \<notin> set (map f xs)"
proof (intro impI notI)
  assume all: "\<forall>x \<in> set xs. \<exists>t. f x = toString t \<and> t \<noteq> now"
    and mem: "toString now \<in> set (map f xs)"
  from mem obtain x where x: "x \<in> set xs" "f x = toString now" by auto
  from all x obtain t where "f x = toString t" "t \<noteq> now" by blast
  with x show False by (auto dest: toString_inj)
qed

lemma truthy_Some: "eid \<noteq> [] \<Longrightarrow> truthy (Some eid) = Some eid"
  by (cases eid) simp_all

lemma toLowerCase_examples:
  "toLowerCase ''Omar'' = ''omar''" "toLowerCase ''omar'' = ''omar''"
  "toLowerCase ''OMAR'' = ''omar''" "toLowerCase ''Acme'' = ''acme''"
  "toLowerCase ''Hassan Bobo'' = ''hassan bobo''"
  "toLowerCase ''Omar Shareif'' = ''omar shareif''"
  "toLowerCase ''Muhi Aldein'' = ''muhi aldein''"
  "toLowerCase ''Khalifa Shareif'' = ''khalifa shareif''"
  "toLowerCase ''Mutwali'' = ''mutwali''"
  "toLowerCase [CHR 0xC9, CHR 0xD7, CHR 0xDF, CHR 0xDE, CHR 0xC0, CHR 0xE9]
     = [CHR 0xE9, CHR 0xD7, CHR 0xDF, CHR 0xFE, CHR 0xE0, CHR 0xE9]"
  "toLowerCase [CHR ''c'', CHR ''a'', CHR ''f'', CHR 0xE9]
     = [CHR ''c'', CHR ''a'', CHR ''f'', CHR 0xE9]"
  "toLowerCase [CHR ''C'', CHR ''A'', CHR ''F'', CHR 0xC9]
     = [CHR ''c'', CHR ''a'', CHR ''f'', CHR 0xE9]"
  by (simp_all add: toLowerCase_def toLowerChar_def char_of_def bit_0)

lemma trim_examples:
  "trim ''   '' = []" "trim ''omar'' = ''omar''" "trim ''Omar'' = ''Omar''"
  "trim '' Acme  '' = ''Acme''"
  "trim ''Acme'' = ''Acme''"
  "trim [CHR ''c'', CHR ''a'', CHR ''f'', CHR 0xE9] = [CHR ''c'', CHR ''a'', CHR ''f'', CHR 0xE9]"
  "trim [CHR 0xA0, CHR ''C'', CHR ''A'', CHR ''F'', CHR 0xC9, CHR 0xA0, CHR 0x09]
     = [CHR ''C'', CHR ''A'', CHR ''F'', CHR 0xC9]"
  "trim [CHR 0x85] = [CHR 0x85]"
  by (simp_all add: trim_def isWhiteSpace_def)

lemma trim_decompose:
  "\<exists>pre post. s = pre @ trim s @ post \<and> list_all isWhiteSpace pre \<and> list_all isWhiteSpace post"
proof -
  let ?a = "dropWhile isWhiteSpace s"
  have 1: "s = takeWhile isWhiteSpace s @ ?a" by simp
  have 2: "rev ?a = takeWhile isWhiteSpace (rev ?a) @ dropWhile isWhiteSpace (rev ?a)" by simp
  have "?a = rev (dropWhile isWhiteSpace (rev ?a)) @ rev (takeWhile isWhiteSpace (rev ?a))"
    by (metis 2 rev_append rev_rev_ident)
  then have "s = takeWhile isWhiteSpace s @ trim s @ rev (takeWhile isWhiteSpace (rev ?a))"
    using 1 by (metis trim_def)
  moreover have "list_all isWhiteSpace (takeWhile isWhiteSpace s)"
    by (simp add: list_all_iff) (meson set_takeWhileD)
  moreover have "list_all isWhiteSpace (rev (takeWhile isWhiteSpace (rev ?a)))"
    by (simp add: list_all_iff) (meson set_takeWhileD)
  ultimately show ?thesis by blast
qed

lemma trim_ends:
  "trim s \<noteq> [] \<longrightarrow> \<not> isWhiteSpace (hd (trim s)) \<and> \<not> isWhiteSpace (last (trim s))"
proof
  assume ne: "trim s \<noteq> []"
  let ?a = "dropWhile isWhiteSpace s"
  let ?b = "dropWhile isWhiteSpace (rev ?a)"
  have b: "?b \<noteq> []" using ne unfolding trim_def rev_is_Nil_conv .
  then have hb: "\<not> isWhiteSpace (hd ?b)" by (rule hd_dropWhile)
  have last: "last (trim s) = hd ?b"
    using b by (simp add: trim_def last_rev del: dropWhile_eq_Nil_conv)
  have a: "?a \<noteq> []"
  proof
    assume "?a = []"
    then have "?b = []" by (metis dropWhile.simps(1) rev.simps(1))
    with b show False by (rule notE)
  qed
  then have ha: "\<not> isWhiteSpace (hd ?a)" by (rule hd_dropWhile)
  have "rev ?a = takeWhile isWhiteSpace (rev ?a) @ ?b" by simp
  then have "last (rev ?a) = last ?b" using b by (metis last_appendR)
  moreover have "last (rev ?a) = hd ?a"
    using a by (simp add: last_rev del: dropWhile_eq_Nil_conv)
  moreover have "hd (trim s) = last ?b"
    using b by (simp add: trim_def hd_rev del: dropWhile_eq_Nil_conv)
  ultimately show "\<not> isWhiteSpace (hd (trim s)) \<and> \<not> isWhiteSpace (last (trim s))"
    using ha hb last by simp
qed

subsection \<open>Lists and sums\<close>



lemma map_if_update:
  assumes "distinct (map f xs)" "k < length xs" "f (xs ! k) = e"
  shows "map (\<lambda>x. if f x = e then y else x) xs = xs[k := y]"
proof (rule nth_equalityI)
  show "length (map (\<lambda>x. if f x = e then y else x) xs) = length (xs[k := y])" by simp
next
  fix j assume j: "j < length (map (\<lambda>x. if f x = e then y else x) xs)"
  then have jl: "j < length xs" by simp
  have "f (xs ! j) = e \<longleftrightarrow> j = k"
    using assms jl nth_eq_iff_index_eq [of "map f xs" j k] by auto
  then show "map (\<lambda>x. if f x = e then y else x) xs ! j = xs[k := y] ! j"
    using jl assms(2) by (auto simp: nth_list_update)
qed

subsection \<open>The example states\<close>

lemma filledDraftState_eq:
  "filledDraftState =
     \<lparr>orders = [], clients = predefinedClients,
      newOrder = \<lparr>date = ''2024-05-10'', vehicle = ''Truck A'', clientName = ''Hassan Bobo'',
                  orderType = [], location = [], cost = 0, price = 100,
                  paymentMethod = Cash\<rparr>,
      orderPaid = True, editingOrderId = None, newClientName = [],
      showAddClientInput = False, selectedClientForInvoice = ''Hassan Bobo'',
      selectedMonthForInvoice = ''2024-05''\<rparr>"
  by (simp add: filledDraftState_def onChange_orderPrice_def onChange_orderVehicle_def
      initialState_def defaultNewOrderState_def predefinedClients_def)

lemma oneOrderState_eq:
  "oneOrderState =
     \<lparr>orders = [\<lparr>date = ''2024-05-10'', vehicle = ''Truck A'', clientName = ''Hassan Bobo'',
                  orderType = [], location = [], cost = 0, price = 100,
                  paymentMethod = Cash, id_order = ''1715299200000'', paid = True\<rparr>],
      clients = predefinedClients,
      newOrder = defaultNewOrderState ''2024-05-10'',
      orderPaid = True, editingOrderId = None, newClientName = [],
      showAddClientInput = False, selectedClientForInvoice = ''Hassan Bobo'',
      selectedMonthForInvoice = ''2024-05''\<rparr>"
  by (simp add: oneOrderState_def filledDraftState_eq handleSaveOrder_def spreadOrder_def
      toString_1715299200000)

lemma secondDraftState_eq:
  "secondDraftState =
     \<lparr>orders = [\<lparr>date = ''2024-05-10'', vehicle = ''Truck A'', clientName = ''Hassan Bobo'',
                  orderType = [], location = [], cost = 0, price = 100,
                  paymentMethod = Cash, id_order = ''1715299200000'', paid = True\<rparr>],
      clients = predefinedClients,
      newOrder = \<lparr>date = ''2024-05-10'', vehicle = ''Truck B'', clientName = ''Hassan Bobo'',
                  orderType = [], location = [], cost = 0, price = 50,
                  paymentMethod = Cash\<rparr>,
      orderPaid = True, editingOrderId = None, newClientName = [],
      showAddClientInput = False, selectedClientForInvoice = ''Hassan Bobo'',
      selectedMonthForInvoice = ''2024-05''\<rparr>"
  by (simp add: secondDraftState_def oneOrderState_eq onChange_orderPrice_def
      onChange_orderVehicle_def defaultNewOrderState_def predefinedClients_def)

lemma twoOrderState_eq:
  "twoOrderState =
     \<lparr>orders = [\<lparr>date = ''2024-05-10'', vehicle = ''Truck A'', clientName = ''Hassan Bobo'',
                  orderType = [], location = [], cost = 0, price = 100,
                  paymentMethod = Cash, id_order = ''1715299200000'', paid = True\<rparr>,
                 \<lparr>date = ''2024-05-10'', vehicle = ''Truck B'', clientName = ''Hassan Bobo'',
                  orderType = [], location = [], cost = 0, price = 50,
                  paymentMethod = Cash, id_order = ''1716163200000'', paid = True\<rparr>],
      clients = predefinedClients,
      newOrder = defaultNewOrderState ''2024-05-20'',
      orderPaid = True, editingOrderId = None, newClientName = [],
      showAddClientInput = False, selectedClientForInvoice = ''Hassan Bobo'',
      selectedMonthForInvoice = ''2024-05''\<rparr>"
  by (simp add: twoOrderState_def secondDraftState_eq handleSaveOrder_def spreadOrder_def
      toString_1716163200000)

lemma editFirstState_eq:
  "editFirstState =
     \<lparr>orders = [\<lparr>date = ''2024-05-10'', vehicle = ''Truck A'', clientName = ''Hassan Bobo'',
                  orderType = [], location = [], cost = 0, price = 100,
                  paymentMethod = Cash, id_order = ''1715299200000'', paid = True\<rparr>,
                 \<lparr>date = ''2024-05-10'', vehicle = ''Truck B'', clientName = ''Hassan Bobo'',
                  orderType = [], location = [], cost = 0, price = 50,
                  paymentMethod = Cash, id_order = ''1716163200000'', paid = True\<rparr>],
      clients = predefinedClients,
      newOrder = \<lparr>date = ''2024-05-10'', vehicle = ''Truck A'', clientName = ''Hassan Bobo'',
                  orderType = [], location = [], cost = 0, price = 120,
                  paymentMethod = Cash\<rparr>,
      orderPaid = True, editingOrderId = Some ''1715299200000'', newClientName = [],
      showAddClientInput = False, selectedClientForInvoice = ''Hassan Bobo'',
      selectedMonthForInvoice = ''2024-05''\<rparr>"
  by (simp add: editFirstState_def twoOrderState_eq handleEditOrder_def onChange_orderPrice_def)

lemma omarAddedState_eq:
  "omarAddedState =
     \<lparr>orders = [],
      clients = predefinedClients @ [\<lparr>id_client = ''1715299200000'', name = ''omar''\<rparr>],
      newOrder = \<lparr>date = ''2024-05-10'', vehicle = [], clientName = ''omar'',
                  orderType = [], location = [], cost = 0, price = 0,
                  paymentMethod = Cash\<rparr>,
      orderPaid = True, editingOrderId = None, newClientName = [],
      showAddClientInput = False, selectedClientForInvoice = ''Hassan Bobo'',
      selectedMonthForInvoice = ''2024-05''\<rparr>"
  by (simp add: omarAddedState_def handleAddClient_def onChange_newClientName_def
      initialState_def defaultNewOrderState_def predefinedClients_def
      toLowerCase_examples trim_examples toString_1715299200000)

lemma omarAddedState_ids:
  "id_client ` set (clients omarAddedState) = toString ` {1, 2, 3, 4, 5, 1715299200000}"
  by (simp add: omarAddedState_eq predefinedClients_def toString_seeds toString_1715299200000)

lemma cafeAddedState_eq:
  "cafeAddedState =
     \<lparr>orders = [],
      clients = predefinedClients
                  @ [\<lparr>id_client = ''1715299200000'', name = ''omar''\<rparr>,
                     \<lparr>id_client = ''1715299260000'',
                      name = [CHR ''c'', CHR ''a'', CHR ''f'', CHR 0xE9]\<rparr>],
      newOrder = \<lparr>date = ''2024-05-10'', vehicle = [],
                  clientName = [CHR ''c'', CHR ''a'', CHR ''f'', CHR 0xE9],
                  orderType = [], location = [], cost = 0, price = 0,
                  paymentMethod = Cash\<rparr>,
      orderPaid = True, editingOrderId = None, newClientName = [],
      showAddClientInput = False, selectedClientForInvoice = ''Hassan Bobo'',
      selectedMonthForInvoice = ''2024-05''\<rparr>"
  by (simp add: cafeAddedState_def omarAddedState_eq handleAddClient_def
      onChange_newClientName_def predefinedClients_def
      toLowerCase_examples trim_examples toString_1715299260000)

subsection \<open>The id under edit\<close>

lemma editingIdMatches_initialState: "editingIdMatches (initialState today)"
  by (simp add: editingIdMatches_def initialState_def)

lemma editingIdMatches_handleSaveOrder:
  "editingIdMatches s \<Longrightarrow> editingIdMatches (snd (handleSaveOrder now today s))"
  by (auto simp: editingIdMatches_def handleSaveOrder_def split: option.splits)

lemma editingIdMatches_handleEditOrder:
  "editingIdMatches s \<Longrightarrow> editingIdMatches (handleEditOrder i s)"
proof (cases "find (\<lambda>order. id_order order = i) (orders s)")
  case None
  then show "editingIdMatches s \<Longrightarrow> ?thesis" by (simp add: handleEditOrder_def)
next
  case (Some orderToEdit)
  then have "i \<in> set (map id_order (orders s))"
    by (auto simp: find_Some_iff)
  with Some show ?thesis
    by (cases i) (simp_all add: editingIdMatches_def handleEditOrder_def)
qed

lemma editingIdMatches_handleDeleteOrder:
  "editingIdMatches s \<Longrightarrow> editingIdMatches (handleDeleteOrder confirmed today i s)"
proof -
  assume m: "editingIdMatches s"
  show ?thesis
  proof (cases "truthy (editingOrderId s)")
    case None
    then show ?thesis
      by (auto simp: editingIdMatches_def handleDeleteOrder_def)
  next
    case (Some eid)
    then have e: "editingOrderId s = Some eid"
      by (cases "editingOrderId s" rule: truthy.cases) simp_all
    from m Some have "eid \<in> set (map id_order (orders s))"
      by (simp add: editingIdMatches_def)
    with Some e show ?thesis
      by (auto simp: editingIdMatches_def handleDeleteOrder_def)
  qed
qed

lemma editingIdMatches_handleCancelEditOrder:
  "editingIdMatches (handleCancelEditOrder today s)"
  by (simp add: editingIdMatches_def handleCancelEditOrder_def)

lemma editingIdMatches_cases:
  "editingIdMatches s \<Longrightarrow>
   truthy (editingOrderId s) = None \<or>
   (\<exists>eid k. editingOrderId s = Some eid \<and> eid \<noteq> [] \<and> k < length (orders s) \<and>
            id_order (orders s ! k) = eid)"
proof (cases "editingOrderId s" rule: truthy.cases)
  case (3 c cs)
  assume "editingIdMatches s"
  with 3 have "c # cs \<in> set (map id_order (orders s))"
    by (simp add: editingIdMatches_def)
  then obtain k where "k < length (orders s)" "id_order (orders s ! k) = c # cs"
    by (auto simp: in_set_conv_nth)
  with 3 show ?thesis by auto
qed simp_all

section \<open>Properties of the financial calculator\<close>

text \<open>
  C1: for every list of orders, client name and month, the unpaid total is the sum of the
  prices of exactly those orders whose client name is the given one, whose date string
  has the month string as a prefix, whose payment method is Postpaid and which are not
  paid: these prices, in the order of the collection, added one after the other to 0 by
  the addition of the number type, whatever that addition is.
\<close>

theorem C1_unpaidTotal_sum:
  "totalUnpaidAmount os c m =
     foldl (+) 0
       (map price [order \<leftarrow> os. clientName order = c \<and> prefix m (date order) \<and>
                                 paymentMethod order = Postpaid \<and> paid order = False])"
  by (simp add: totalUnpaidAmount_def startsWith_prefix foldl_map)

text \<open>
  C2: the balance of an order is its price when it is Postpaid and unpaid and 0 in every
  other case. So it is 0 for every Cash order whatever the paid flag says; and for an
  order with a price other than 0, as every order of the data model has and the save
  validation demands, the balance equals the price exactly when the order is Postpaid and
  unpaid.
\<close>

theorem C2_balance:
  "calculateBalance order =
     (if paymentMethod order = Postpaid \<and> paid order = False then price order else 0)
   \<and> (paymentMethod order = Cash \<longrightarrow> calculateBalance order = 0)
   \<and> (price order \<noteq> 0 \<longrightarrow>
        (calculateBalance order = price order
           \<longleftrightarrow> paymentMethod order = Postpaid \<and> paid order = False))"
  by (simp add: calculateBalance_def)

theorem C2_balance_witness:
  "paymentMethod cashPaidOrder = Cash \<and> calculateBalance cashPaidOrder = 0 \<and>
   price postpaidUnpaidOrder \<noteq> 0 \<and>
   calculateBalance postpaidUnpaidOrder = price postpaidUnpaidOrder \<and>
   calculateBalance postpaidUnpaidOrder = 100 \<and>
   price cashPaidOrder \<noteq> 0 \<and> calculateBalance cashPaidOrder \<noteq> price cashPaidOrder"
  using C2_balance [of cashPaidOrder] C2_balance [of postpaidUnpaidOrder]
  by (simp add: cashPaidOrder_def postpaidUnpaidOrder_def)


section \<open>Properties of the entity store\<close>

text \<open>
  C4: a save whose draft has a price of 0 or less, or an empty date, client name or
  vehicle, is answered with the validation alert and changes nothing: the whole state, and
  so the orders collection, is the same after the call as before it.
\<close>

theorem C4_save_rejected:
  "price (newOrder s) \<le> 0 \<or> date (newOrder s) = [] \<or> clientName (newOrder s) = [] \<or>
     vehicle (newOrder s) = [] \<Longrightarrow>
   fst (handleSaveOrder now today s) = Some alertOrderFields \<and>
   snd (handleSaveOrder now today s) = s \<and>
   orders (snd (handleSaveOrder now today s)) = orders s"
  by (auto simp: handleSaveOrder_def)

theorem C4_save_rejected_witness:
  "price (newOrder (initialState ''2024-05-10'' :: real app_state)) \<le> 0 \<and>
   handleSaveOrder 1715299200000 ''2024-05-10'' (initialState ''2024-05-10'' :: real app_state)
     = (Some alertOrderFields, initialState ''2024-05-10'')"
proof -
  have h: "price (newOrder (initialState ''2024-05-10'' :: real app_state)) \<le> 0"
    by (simp add: initialState_def defaultNewOrderState_def)
  from C4_save_rejected
    [of "initialState ''2024-05-10'' :: real app_state" 1715299200000 "''2024-05-10''"] h
  show ?thesis by (simp add: prod_eq_iff)
qed


text \<open>
  C3, as amended: for a save that passes the validation, with pairwise distinct order
  ids: when the id under edit is the id of an existing order, that order is replaced in
  place by the draft under the same id, and the position of every order and every other
  order stay as they were; when no id is under edit the draft is appended at the end
  under the decimal string of the clock's reading, an id no existing order has whenever
  every existing id is the decimal string of another reading.
\<close>

theorem C3_save_order:
  "date (newOrder s) \<noteq> [] \<and> clientName (newOrder s) \<noteq> [] \<and> vehicle (newOrder s) \<noteq> [] \<and>
     \<not> price (newOrder s) \<le> 0 \<Longrightarrow>
   fst (handleSaveOrder now today s) = None \<and>
   (editingOrderId s = Some eid \<and> eid \<noteq> [] \<and> k < length (orders s) \<and>
      id_order (orders s ! k) = eid \<and> distinct (map id_order (orders s)) \<longrightarrow>
      orders (snd (handleSaveOrder now today s))
        = (orders s)[k := spreadOrder (newOrder s) eid (orderPaid s)] \<and>
      id_order (spreadOrder (newOrder s) eid (orderPaid s)) = eid) \<and>
   (truthy (editingOrderId s) = None \<longrightarrow>
      orders (snd (handleSaveOrder now today s))
        = orders s @ [spreadOrder (newOrder s) (toString now) (orderPaid s)] \<and>
      id_order (last (orders (snd (handleSaveOrder now today s)))) = toString now \<and>
      ((\<forall>order \<in> set (orders s). \<exists>t. id_order order = toString t \<and> t \<noteq> now) \<longrightarrow>
         toString now \<notin> set (map id_order (orders s))))"
proof -
  assume valid: "date (newOrder s) \<noteq> [] \<and> clientName (newOrder s) \<noteq> [] \<and>
    vehicle (newOrder s) \<noteq> [] \<and> \<not> price (newOrder s) \<le> 0"
  have ok: "fst (handleSaveOrder now today s) = None"
    using valid by (simp add: handleSaveOrder_def)
  have edit: "orders (snd (handleSaveOrder now today s))
      = (orders s)[k := spreadOrder (newOrder s) eid (orderPaid s)]"
    if e: "editingOrderId s = Some eid" "eid \<noteq> []"
      and k: "k < length (orders s)" "id_order (orders s ! k) = eid"
      and d: "distinct (map id_order (orders s))"
  proof -
    have "orders (snd (handleSaveOrder now today s))
      = map (\<lambda>order. if id_order order = eid
                      then spreadOrder (newOrder s) eid (orderPaid s) else order) (orders s)"
      using valid e by (simp add: handleSaveOrder_def truthy_Some)
    also have "\<dots> = (orders s)[k := spreadOrder (newOrder s) eid (orderPaid s)]"
      using d k by (rule map_if_update)
    finally show ?thesis .
  qed
  have add: "orders (snd (handleSaveOrder now today s))
      = orders s @ [spreadOrder (newOrder s) (toString now) (orderPaid s)]"
    if "truthy (editingOrderId s) = None"
    using valid that by (simp add: handleSaveOrder_def)
  have fresh: "(\<forall>order \<in> set (orders s). \<exists>t. id_order order = toString t \<and> t \<noteq> now) \<longrightarrow>
      toString now \<notin> set (map id_order (orders s))"
    by (rule toString_fresh)
  show ?thesis
    using ok edit add fresh by (simp add: spreadOrder_def)
qed

theorem C3_save_order_witness:
  "date (newOrder secondDraftState) \<noteq> [] \<and> clientName (newOrder secondDraftState) \<noteq> [] \<and>
   vehicle (newOrder secondDraftState) \<noteq> [] \<and> \<not> price (newOrder secondDraftState) \<le> 0 \<and>
   truthy (editingOrderId secondDraftState) = None \<and>
   map id_order (orders secondDraftState) = [toString 1715299200000] \<and>
   (1715299200000 :: nat) \<noteq> 1716163200000 \<and>
   fst (handleSaveOrder 1716163200000 ''2024-05-20'' secondDraftState) = None \<and>
   orders (snd (handleSaveOrder 1716163200000 ''2024-05-20'' secondDraftState))
     = orders secondDraftState
         @ [spreadOrder (newOrder secondDraftState) (toString 1716163200000) True] \<and>
   toString 1716163200000 \<notin> set (map id_order (orders secondDraftState)) \<and>
   date (newOrder editFirstState) \<noteq> [] \<and> clientName (newOrder editFirstState) \<noteq> [] \<and>
   vehicle (newOrder editFirstState) \<noteq> [] \<and> \<not> price (newOrder editFirstState) \<le> 0 \<and>
   editingOrderId editFirstState = Some ''1715299200000'' \<and>
   id_order (orders editFirstState ! 0) = ''1715299200000'' \<and>
   distinct (map id_order (orders editFirstState)) \<and>
   fst (handleSaveOrder 1716249600000 ''2024-05-21'' editFirstState) = None \<and>
   orders (snd (handleSaveOrder 1716249600000 ''2024-05-21'' editFirstState))
     = (orders editFirstState)
         [0 := spreadOrder (newOrder editFirstState) ''1715299200000'' True] \<and>
   map price (orders editFirstState) = [100, 50] \<and>
   map price (orders (snd (handleSaveOrder 1716249600000 ''2024-05-21'' editFirstState)))
     = [120, 50]"
proof -
  have v1: "date (newOrder secondDraftState) \<noteq> [] \<and> clientName (newOrder secondDraftState) \<noteq> [] \<and>
    vehicle (newOrder secondDraftState) \<noteq> [] \<and> \<not> price (newOrder secondDraftState) \<le> 0"
    and n1: "truthy (editingOrderId secondDraftState) = None"
      "orderPaid secondDraftState = True"
      "map id_order (orders secondDraftState) = [toString 1715299200000]"
    by (simp_all add: secondDraftState_eq toString_1715299200000)
  have r1: "\<forall>order \<in> set (orders secondDraftState).
      \<exists>t. id_order order = toString t \<and> t \<noteq> 1716163200000"
    by (simp add: secondDraftState_eq)
      (rule exI [of _ 1715299200000], simp add: toString_1715299200000)
  have v2: "date (newOrder editFirstState) \<noteq> [] \<and> clientName (newOrder editFirstState) \<noteq> [] \<and>
    vehicle (newOrder editFirstState) \<noteq> [] \<and> \<not> price (newOrder editFirstState) \<le> 0"
    and e2: "editingOrderId editFirstState = Some ''1715299200000''"
      "0 < length (orders editFirstState)"
      "id_order (orders editFirstState ! 0) = ''1715299200000''"
      "distinct (map id_order (orders editFirstState))"
      "orderPaid editFirstState = True"
    and o2: "map price (orders editFirstState) = [100, 50]"
      "map price ((orders editFirstState)
         [0 := spreadOrder (newOrder editFirstState) ''1715299200000'' True]) = [120, 50]"
    by (simp_all add: editFirstState_eq spreadOrder_def)
  note a = C3_save_order [OF v1, of 1716163200000 "''2024-05-20''" "[]" 0]
  note b = C3_save_order [OF v2, of 1716249600000 "''2024-05-21''" "''1715299200000''" 0]
  from a n1 r1 v1 b e2 v2 o2 show ?thesis by simp
qed

text \<open>
  C3 as stated fails when the clock reads the same millisecond twice: the second draft,
  saved at the reading of the first save, passes the validation with no id under edit and
  is appended under the id the first order already has.
\<close>

theorem C3_duplicate_id_counterexample:
  "date (newOrder secondDraftState) \<noteq> [] \<and> clientName (newOrder secondDraftState) \<noteq> [] \<and>
   vehicle (newOrder secondDraftState) \<noteq> [] \<and> 0 < price (newOrder secondDraftState) \<and>
   editingOrderId secondDraftState = None \<and>
   map id_order (orders secondDraftState) = [''1715299200000''] \<and>
   fst (handleSaveOrder 1715299200000 ''2024-05-10'' secondDraftState) = None \<and>
   map id_order (orders (snd (handleSaveOrder 1715299200000 ''2024-05-10'' secondDraftState)))
     = [''1715299200000'', ''1715299200000'']"
  by (simp add: secondDraftState_eq handleSaveOrder_def spreadOrder_def toString_1715299200000)

text \<open>
  C8, as amended: adding a client trims the typed name: white space is taken off both ends
  and nothing else. An empty trimmed name raises the empty-name alert; otherwise a client
  whose name equals the trimmed name up to letter case raises the duplicate alert, a
  different one; either way the state, and so the client collection, is unchanged.
  Otherwise the collection gains, at its end, a client with the trimmed name and the
  decimal string of the clock's reading as id, an id no existing client has whenever every
  existing id is the decimal string of another number.
\<close>

theorem C8_addClient:
  "(trim (newClientName s) = [] \<longrightarrow> handleAddClient now s = (Some alertClientEmpty, s))
   \<and> (trim (newClientName s) \<noteq> [] \<and>
        (\<exists>c \<in> set (clients s).
            toLowerCase (name c) = toLowerCase (trim (newClientName s))) \<longrightarrow>
        handleAddClient now s = (Some alertClientExists, s))
   \<and> (trim (newClientName s) \<noteq> [] \<and>
        \<not> (\<exists>c \<in> set (clients s).
               toLowerCase (name c) = toLowerCase (trim (newClientName s))) \<longrightarrow>
        fst (handleAddClient now s) = None \<and>
        clients (snd (handleAddClient now s))
          = clients s @ [\<lparr>id_client = toString now, name = trim (newClientName s)\<rparr>] \<and>
        ((\<forall>c \<in> set (clients s). \<exists>t. id_client c = toString t \<and> t \<noteq> now) \<longrightarrow>
           toString now \<notin> set (map id_client (clients s))))
   \<and> alertClientEmpty \<noteq> alertClientExists
   \<and> (\<exists>pre post. newClientName s = pre @ trim (newClientName s) @ post \<and>
         list_all isWhiteSpace pre \<and> list_all isWhiteSpace post)
   \<and> (trim (newClientName s) \<noteq> [] \<longrightarrow>
        \<not> isWhiteSpace (hd (trim (newClientName s))) \<and>
        \<not> isWhiteSpace (last (trim (newClientName s))))"
proof -
  have fresh: "(\<forall>c \<in> set (clients s). \<exists>t. id_client c = toString t \<and> t \<noteq> now) \<longrightarrow>
      toString now \<notin> set (map id_client (clients s))"
    by (rule toString_fresh)
  have handler:
    "(trim (newClientName s) = [] \<longrightarrow> handleAddClient now s = (Some alertClientEmpty, s))
     \<and> (trim (newClientName s) \<noteq> [] \<and>
          (\<exists>c \<in> set (clients s).
              toLowerCase (name c) = toLowerCase (trim (newClientName s))) \<longrightarrow>
          handleAddClient now s = (Some alertClientExists, s))
     \<and> (trim (newClientName s) \<noteq> [] \<and>
          \<not> (\<exists>c \<in> set (clients s).
                 toLowerCase (name c) = toLowerCase (trim (newClientName s))) \<longrightarrow>
          fst (handleAddClient now s) = None \<and>
          clients (snd (handleAddClient now s))
            = clients s @ [\<lparr>id_client = toString now, name = trim (newClientName s)\<rparr>])
     \<and> alertClientEmpty \<noteq> alertClientExists"
    by (simp add: handleAddClient_def list_ex_iff Let_def alertClientEmpty_def
        alertClientExists_def)
  from handler fresh trim_decompose [of "newClientName s"] trim_ends [of "newClientName s"]
  show ?thesis by blast
qed

theorem C8_addClient_witness:
  "trim (newClientName (onChange_newClientName ''   '' omarAddedState)) = [] \<and>
   handleAddClient 1716163200000 (onChange_newClientName ''   '' omarAddedState)
     = (Some alertClientEmpty, onChange_newClientName ''   '' omarAddedState) \<and>
   trim (newClientName (onChange_newClientName ''Omar'' omarAddedState)) = ''Omar'' \<and>
   handleAddClient 1716163200000 (onChange_newClientName ''Omar'' omarAddedState)
     = (Some alertClientExists, onChange_newClientName ''Omar'' omarAddedState) \<and>
   trim (newClientName (onChange_newClientName
           [CHR 0xA0, CHR ''C'', CHR ''A'', CHR ''F'', CHR 0xC9, CHR 0xA0, CHR 0x09]
           cafeAddedState))
     = [CHR ''C'', CHR ''A'', CHR ''F'', CHR 0xC9] \<and>
   handleAddClient 1716163200000
       (onChange_newClientName
          [CHR 0xA0, CHR ''C'', CHR ''A'', CHR ''F'', CHR 0xC9, CHR 0xA0, CHR 0x09]
          cafeAddedState)
     = (Some alertClientExists,
        onChange_newClientName
          [CHR 0xA0, CHR ''C'', CHR ''A'', CHR ''F'', CHR 0xC9, CHR 0xA0, CHR 0x09]
          cafeAddedState) \<and>
   trim (newClientName (onChange_newClientName '' Acme  '' omarAddedState)) = ''Acme'' \<and>
   id_client ` set (clients omarAddedState) = toString ` {1, 2, 3, 4, 5, 1715299200000} \<and>
   fst (handleAddClient 1716163200000 (onChange_newClientName '' Acme  '' omarAddedState))
     = None \<and>
   clients (snd (handleAddClient 1716163200000
                   (onChange_newClientName '' Acme  '' omarAddedState)))
     = clients omarAddedState @ [\<lparr>id_client = ''1716163200000'', name = ''Acme''\<rparr>] \<and>
   toString 1716163200000 \<notin> set (map id_client (clients omarAddedState))"
proof -
  have r: "\<forall>c \<in> set (clients (onChange_newClientName '' Acme  '' omarAddedState)).
      \<exists>t. id_client c = toString t \<and> t \<noteq> 1716163200000"
  proof
    fix c assume "c \<in> set (clients (onChange_newClientName '' Acme  '' omarAddedState))"
    then have "id_client c \<in> id_client ` set (clients omarAddedState)"
      by (simp add: onChange_newClientName_def)
    then have "id_client c \<in> toString ` {1, 2, 3, 4, 5, 1715299200000}"
      by (simp only: omarAddedState_ids)
    then show "\<exists>t. id_client c = toString t \<and> t \<noteq> 1716163200000"
      by auto
  qed
  have c: "clients (onChange_newClientName '' Acme  '' omarAddedState) = clients omarAddedState"
    by (simp add: onChange_newClientName_def)
  from C8_addClient [of "onChange_newClientName ''   '' omarAddedState" 1716163200000]
    C8_addClient [of "onChange_newClientName ''Omar'' omarAddedState" 1716163200000]
    C8_addClient [of "onChange_newClientName
                        [CHR 0xA0, CHR ''C'', CHR ''A'', CHR ''F'', CHR 0xC9, CHR 0xA0, CHR 0x09]
                        cafeAddedState" 1716163200000]
    C8_addClient [of "onChange_newClientName '' Acme  '' omarAddedState" 1716163200000]
    r c omarAddedState_ids
  show ?thesis
    by (simp add: omarAddedState_eq cafeAddedState_eq onChange_newClientName_def
        predefinedClients_def toLowerCase_examples trim_examples toString_1716163200000
        toString_1715299200000 toString_seeds)
qed

text \<open>
  C8 as stated, with a fresh id, fails when the clock reads the same millisecond twice:
  a client added at the reading at which \<^verbatim>\<open>omar\<close> was added gets the id \<^verbatim>\<open>omar\<close> has.
\<close>

theorem C8_duplicate_id_counterexample:
  "trim (newClientName (onChange_newClientName ''Acme'' omarAddedState)) = ''Acme'' \<and>
   fst (handleAddClient 1715299200000 (onChange_newClientName ''Acme'' omarAddedState))
     = None \<and>
   map id_client (clients omarAddedState)
     = [''1'', ''2'', ''3'', ''4'', ''5'', ''1715299200000''] \<and>
   map id_client
     (clients (snd (handleAddClient 1715299200000
                      (onChange_newClientName ''Acme'' omarAddedState))))
     = [''1'', ''2'', ''3'', ''4'', ''5'', ''1715299200000'', ''1715299200000'']"
  by (simp add: omarAddedState_eq onChange_newClientName_def handleAddClient_def
      predefinedClients_def toLowerCase_examples trim_examples toString_1715299200000)

text \<open>
  C9 fails on the code. After the first seed client is removed, a successful save resets
  the draft to \<^verbatim>\<open>defaultNewOrderState\<close>, whose client is the first seed client's name
  whatever the client collection holds; the next save passes the validation and appends
  an order for \<^verbatim>\<open>Hassan Bobo\<close>, a name no client has.
\<close>

theorem C9_stale_default_client:
  "editingOrderId staleClientState = None \<and>
   fst (handleSaveOrder 1715299260000 ''2024-05-10'' staleClientState) = None \<and>
   map clientName (orders (snd (handleSaveOrder 1715299260000 ''2024-05-10'' staleClientState)))
     = [''Omar Shareif'', ''Hassan Bobo''] \<and>
   map name (clients staleClientState)
     = [''Omar Shareif'', ''Muhi Aldein'', ''Khalifa Shareif'', ''Mutwali''] \<and>
   clients (snd (handleSaveOrder 1715299260000 ''2024-05-10'' staleClientState))
     = clients staleClientState"
  by (simp add: staleClientState_def handleSaveOrder_def handleRemoveClient_def
      onChange_orderPrice_def onChange_orderVehicle_def initialState_def
      defaultNewOrderState_def predefinedClients_def spreadOrder_def Let_def)

section \<open>Properties of the invoice assembler\<close>

text \<open>
  C5: the invoice selects exactly the orders whose client name is the selected client and
  whose date string has the selected month string as a prefix, a comparison of characters
  and nothing more; the selected orders keep the order they have in the collection, and
  the lines of the invoice are these orders, in that order.
\<close>

theorem C5_invoice_filter:
  "filteredOrders os c m = [order \<leftarrow> os. clientName order = c \<and> prefix m (date order)] \<and>
   set (filteredOrders os c m)
     = {order \<in> set os. clientName order = c \<and> prefix m (date order)} \<and>
   subseq (filteredOrders os c m) os \<and>
   map fst (lineItems (invoiceDocument s))
     = filteredOrders (orders s) (selectedClientForInvoice s) (selectedMonthForInvoice s)"
  by (auto simp: filteredOrders_def startsWith_prefix invoiceDocument_def comp_def)

text \<open>
  C6: generating the invoice raises an alert exactly when the selected client is empty,
  the selected month is empty or no order passes the filter; an alert comes with no
  document, and with the invoice element mounted a document is missing only then. The
  state after the call is the state before it.
\<close>

theorem C6_invoice_no_data:
  "(fst (fst (generateInvoicePdf mounted s)) \<noteq> None \<longleftrightarrow>
      selectedClientForInvoice s = [] \<or> selectedMonthForInvoice s = [] \<or>
      filteredOrders (orders s) (selectedClientForInvoice s) (selectedMonthForInvoice s) = [])
   \<and> (fst (fst (generateInvoicePdf mounted s)) \<noteq> None \<longrightarrow>
        snd (fst (generateInvoicePdf mounted s)) = None)
   \<and> (snd (fst (generateInvoicePdf True s)) = None \<longleftrightarrow>
        fst (fst (generateInvoicePdf True s)) \<noteq> None)
   \<and> snd (generateInvoicePdf mounted s) = s"
  by (simp add: generateInvoicePdf_def)

text \<open>
  The scenario of the specification: two May orders of one client, one Postpaid and unpaid
  at 100 and one Cash and paid at 50, give two invoice lines and an unpaid total of 100
  for May, and nothing for June.
\<close>

lemma invoice_scenario:
  "filteredOrders [postpaidUnpaidOrder, cashPaidOrder] ''Acme'' ''2024-05''
     = [postpaidUnpaidOrder, cashPaidOrder]"
  "totalUnpaidAmount [postpaidUnpaidOrder, cashPaidOrder] ''Acme'' ''2024-05'' = 100"
  "filteredOrders [postpaidUnpaidOrder, cashPaidOrder] ''Acme'' ''2024-06'' = []"
  by (simp_all add: filteredOrders_def totalUnpaidAmount_def postpaidUnpaidOrder_def
      cashPaidOrder_def)

theorem C6_invoice_no_data_witness:
  "filteredOrders (orders (initialState ''2024-05-10'' :: real app_state))
     (selectedClientForInvoice (initialState ''2024-05-10'' :: real app_state))
     (selectedMonthForInvoice (initialState ''2024-05-10'' :: real app_state)) = [] \<and>
   fst (fst (generateInvoicePdf True (initialState ''2024-05-10'' :: real app_state))) \<noteq> None \<and>
   snd (fst (generateInvoicePdf True (initialState ''2024-05-10'' :: real app_state))) = None \<and>
   snd (generateInvoicePdf True (initialState ''2024-05-10'' :: real app_state))
     = initialState ''2024-05-10'' \<and>
   filteredOrders (orders oneOrderState) (selectedClientForInvoice oneOrderState)
     (selectedMonthForInvoice oneOrderState) \<noteq> [] \<and>
   fst (fst (generateInvoicePdf True oneOrderState)) = None \<and>
   snd (fst (generateInvoicePdf True oneOrderState)) \<noteq> None"
proof -
  have empty: "filteredOrders (orders (initialState ''2024-05-10'' :: real app_state))
     (selectedClientForInvoice (initialState ''2024-05-10'' :: real app_state))
     (selectedMonthForInvoice (initialState ''2024-05-10'' :: real app_state)) = []"
    by (simp add: initialState_def filteredOrders_def)
  have one: "filteredOrders (orders oneOrderState) (selectedClientForInvoice oneOrderState)
     (selectedMonthForInvoice oneOrderState) \<noteq> []"
    and sel: "selectedClientForInvoice oneOrderState \<noteq> []"
      "selectedMonthForInvoice oneOrderState \<noteq> []"
    by (simp_all add: oneOrderState_eq filteredOrders_def)
  from C6_invoice_no_data [of True "initialState ''2024-05-10'' :: real app_state"]
    C6_invoice_no_data [of True oneOrderState] empty one sel
  show ?thesis by simp
qed

end
